theory Spec2Isabelle
  imports Main "HOL-Library.AList"
begin

section \<open>The nexusUI manager (lib/core/manager.js)\<close>

text \<open>
  The manager is a single object \<open>nx\<close> holding the widget registry, the type-count
  ledger \<open>elemTypeArr\<close>, the animation callbacks \<open>aniItems\<close>, the shared colour
  mapping and scalar settings. Every method mutates that object; here each method takes
  the manager and returns the new one. The source says \<open>nx\<close> in two places
  (\<open>transform\<close>, \<open>setProp\<close>) and \<open>this\<close> elsewhere: both are the one manager.
\<close>

subsection \<open>JavaScript values\<close>

text \<open>
  The primitive values a caller can pass where the source takes any value. Numbers are
  integers here; \<open>NaN\<close> and fractions are not represented.
\<close>

datatype jsval = JUndefined | JNull | JBool bool | JNum int | JStr string

text \<open>What \<open>if (v)\<close> and \<open>!v\<close> test.\<close>

fun truthy :: "jsval \<Rightarrow> bool" where
  "truthy JUndefined = False"
| "truthy JNull = False"
| "truthy (JBool b) = b"
| "truthy (JNum n) = (n \<noteq> 0)"
| "truthy (JStr s) = (s \<noteq> [])"

text \<open>
  An optional string (an argument that may be left out, or \<open>getAttribute\<close>, which gives
  \<open>null\<close> when the attribute is absent) is truthy when it is present and not empty.
\<close>

fun truthy_str :: "string option \<Rightarrow> bool" where
  "truthy_str None = False"
| "truthy_str (Some s) = (s \<noteq> [])"

text \<open>
  A plain object: its own properties in insertion order. \<open>o[k] = v\<close> is
  \<open>AList.update k v\<close> (the value is replaced in place when \<open>k\<close> is there, appended
  otherwise) and \<open>o[k]\<close> is \<open>map_of o k\<close>.
\<close>

type_synonym obj = "(string \<times> jsval) list"

text \<open>
  \<open>nxType + idNum\<close>: the number is printed in decimal. A ledger is an array, so the
  count stays below \<open>2^32\<close>, where JavaScript prints an integer in plain decimal.
\<close>

definition digit :: "nat \<Rightarrow> char" where
  "digit d = ''0123456789'' ! d"

fun digits :: "nat \<Rightarrow> string" where
  "digits n = (if n < 10 then [digit n] else digits (n div 10) @ [digit (n mod 10)])"

declare digits.simps [simp del]

subsection \<open>Widgets, surfaces and the manager\<close>

text \<open>
  Modelled from the spec: the widget classes (\<open>lib/widgets\<close>) are not in this file. A
  widget exposes \<open>init()\<close>, \<open>draw()\<close>, a \<open>colors\<close> mapping and a
  \<open>throttlePeriod\<close>, and has the identifier of its surface. The manager reads its
  \<open>canvasID\<close>, writes into its \<open>colors\<close> object, and writes further properties by
  name (\<open>throttlePeriod\<close>, whatever \<open>setProp\<close> is given): those are in \<open>wprops\<close>.
\<close>

record widget =
  canvasID :: string
  wcolors :: obj
  wprops :: obj
  inits :: nat
  draws :: nat

text \<open>
  Modelled from the spec: \<open>init\<close> and \<open>draw\<close> are the widget's own methods. What
  they do is the widget's business; the model counts the calls, so that a redraw can be
  seen.
\<close>

definition init :: "widget \<Rightarrow> widget" where
  "init w = w\<lparr>inits := Suc (inits w)\<rparr>"

definition draw :: "widget \<Rightarrow> widget" where
  "draw w = w\<lparr>draws := Suc (draws w)\<rparr>"

text \<open>
  A surface is a canvas element: its \<open>id\<close> (the empty string when it has none) and its
  \<open>nx\<close> attribute.
\<close>

record canvas =
  cid :: string
  nx_attr :: "string option"

text \<open>
  Animation callbacks are function objects; \<open>indexOf\<close> compares them by identity, which
  is the number here. What a callback does when it is called is given separately
  (\<open>run\<close> below).
\<close>

type_synonym callback = nat

text \<open>
  The manager. \<open>props\<close> holds its scalar properties by name (\<open>throttlePeriod\<close>,
  \<open>showLabels\<close>, \<open>globalWidgets\<close>, the fonts, ...). \<open>window\<close> lists the keys
  assigned in the page-global namespace, each bound to the object registered under that
  key at that time; \<open>console\<close> is what \<open>console.log\<close> printed.
\<close>

record manager =
  widgets :: "(string \<times> widget) list"
  elemTypeArr :: "string list"
  aniItems :: "callback list"
  colors :: obj
  props :: obj
  window :: "string list"
  console :: "string list"

text \<open>
  The constructor and \<open>manager.prototype.colors\<close>. The start time and the touch test
  come from the environment. The members that are functions or page elements
  (\<open>sendsTo\<close>, \<open>setAjaxPath\<close>, \<open>metas\<close>, the event emitter) are left out.
\<close>

definition manager_init :: "int \<Rightarrow> bool \<Rightarrow> manager" where
  "manager_init now touch =
     \<lparr> widgets = [],
       elemTypeArr = [],
       aniItems = [],
       colors = [(''accent'', JStr ''#ff5500''), (''fill'', JStr ''#eee''),
                 (''border'', JStr ''#bbb''), (''black'', JStr ''#000''),
                 (''white'', JStr ''#FFF'')],
       props = [(''throttlePeriod'', JNum 20), (''showLabels'', JBool False),
                (''starttime'', JNum now), (''destination'', JStr ''js''),
                (''ajaxPath'', JStr ''lib/nexusOSCRelay.php''),
                (''isTouchDevice'', JBool touch), (''globalWidgets'', JBool True),
                (''font'', JStr ''gill sans''), (''fontSize'', JNum 14),
                (''fontWeight'', JStr ''bold'')],
       window = [],
       console = [] \<rparr>"

text \<open>A call either returns or throws; what it did to the manager before stays.\<close>

datatype error = TypeError | Thrown jsval

datatype 'a outcome = Returned 'a | Threw error

subsection \<open>transform\<close>

text \<open>
  The widget catalog \<open>require('../widgets')\<close> is not part of this file: it is a
  parameter, giving for a type name the constructor, if there is one. A constructor
  takes the identifier and gives the widget, or throws (\<open>None\<close>).
  \<open>new (require('../widgets')[nxType])(canvas.id)\<close> throws when the name is unknown
  (\<open>new undefined\<close>) and when the constructor does.
\<close>

type_synonym catalog = "string \<Rightarrow> (string \<Rightarrow> widget option) option"

definition construct :: "catalog \<Rightarrow> string \<Rightarrow> string \<Rightarrow> widget option" where
  "construct cat nxType i = (case cat nxType of None \<Rightarrow> None | Some ctor \<Rightarrow> ctor i)"

text \<open>The guard loop: some registered widget has the surface's identifier.\<close>

definition registered :: "manager \<Rightarrow> string \<Rightarrow> bool" where
  "registered s i = list_ex (\<lambda>(key, w). canvasID w = i) (widgets s)"

text \<open>The counting loop over the ledger.\<close>

definition elemCount :: "string list \<Rightarrow> string \<Rightarrow> nat" where
  "elemCount arr nxType = fold (\<lambda>t n. if t = nxType then n + 1 else n) arr 0"

text \<open>Type resolution: the \<open>type\<close> argument when it is truthy, else the \<open>nx\<close> attribute.\<close>

definition resolve :: "canvas \<Rightarrow> string option \<Rightarrow> string option" where
  "resolve canv type = (if truthy_str type then type else nx_attr canv)"

text \<open>
  \<open>transform(canvas, type)\<close> returns the manager, the surface (its \<open>id\<close> may have been
  assigned) and the result: \<open>Returned None\<close> is a bare \<open>return\<close>. \<open>!nxType\<close> holds
  for \<open>null\<close> and for the empty string. When construction throws, the \<open>catch\<close> logs
  the type name and \<open>newObj\<close> is still \<open>undefined\<close>: reading \<open>newObj.canvasID\<close> on
  the next line is a TypeError. \<open>newObj.init()\<close> acts on the object that was just
  registered, so the registry holds the widget after \<open>init\<close>.
\<close>

definition transform ::
  "catalog \<Rightarrow> manager \<Rightarrow> canvas \<Rightarrow> string option \<Rightarrow> manager \<times> canvas \<times> widget option outcome"
where
  "transform cat s canv type =
    (if registered s (cid canv) then (s, canv, Returned None)
     else
       (case resolve canv type of
          None \<Rightarrow> (s, canv, Returned None)
        | Some nxType \<Rightarrow>
            (if nxType = [] then (s, canv, Returned None)
             else
               let n = elemCount (elemTypeArr s) nxType;
                   s1 = s\<lparr>elemTypeArr := elemTypeArr s @ [nxType]\<rparr>;
                   canv1 = (if cid canv = [] then canv\<lparr>cid := nxType @ digits (n + 1)\<rparr>
                            else canv)
               in (case construct cat nxType (cid canv1) of
                     None \<Rightarrow> (s1\<lparr>console := console s1 @ [nxType]\<rparr>, canv1, Threw TypeError)
                   | Some newObj \<Rightarrow>
                       let s2 = s1\<lparr>widgets :=
                                     AList.update (canvasID newObj) newObj (widgets s1)\<rparr>;
                           s3 = (if truthy (case map_of (props s2) ''globalWidgets'' of
                                              None \<Rightarrow> JUndefined | Some v \<Rightarrow> v)
                                 then s2\<lparr>window := window s2 @ [canvasID newObj]\<rparr>
                                 else s2);
                           s4 = s3\<lparr>widgets :=
                                     AList.update (canvasID newObj) (init newObj) (widgets s3)\<rparr>
                       in (s4, canv1, Returned (Some (init newObj)))))))"

text \<open>
  A run of calls, each with its surface and its \<open>type\<close> argument, on the manager the
  call before left. It gives the last manager and the surfaces as the calls left them.
\<close>

fun transform_all ::
  "catalog \<Rightarrow> manager \<Rightarrow> (canvas \<times> string option) list \<Rightarrow> manager \<times> canvas list"
where
  "transform_all cat s [] = (s, [])"
| "transform_all cat s ((canv, type) # calls) =
     (case transform cat s canv type of
        (s', canv', r) \<Rightarrow>
          (case transform_all cat s' calls of (s'', rest) \<Rightarrow> (s'', canv' # rest)))"

subsection \<open>Broadcasts\<close>

text \<open>
  Each \<open>for (var key in this.widgets)\<close> loop goes through the registry and changes the
  widget at hand only, so the order in which \<open>for-in\<close> gives the keys does not show
  (but for \<open>setProp\<close> on \<open>draw\<close>, where the loop is cut short).
  In \<open>colorize\<close> the first parameter is a string (the aspect, or the colour when it
  comes alone) and the second any value, \<open>undefined\<close> when it is left out.
\<close>

definition colorize :: "string \<Rightarrow> jsval \<Rightarrow> manager \<Rightarrow> manager" where
  "colorize aspect newCol s =
    (let (aspect1, newCol1) =
           (if \<not> truthy newCol then (''accent'', JStr aspect) else (aspect, newCol))
     in s\<lparr>colors := AList.update aspect1 newCol1 (colors s),
          widgets := map (\<lambda>(key, w).
                        (key, draw (w\<lparr>wcolors := AList.update aspect1 newCol1 (wcolors w)\<rparr>)))
                      (widgets s)\<rparr>)"

definition setThrottlePeriod :: "jsval \<Rightarrow> manager \<Rightarrow> manager" where
  "setThrottlePeriod newThrottle s =
    s\<lparr>props := AList.update ''throttlePeriod'' newThrottle (props s),
      widgets := map (\<lambda>(key, w).
                    (key, w\<lparr>wprops := AList.update ''throttlePeriod'' newThrottle (wprops w)\<rparr>))
                  (widgets s)\<rparr>"

text \<open>
  \<open>onoff == "on"\<close>: among the primitive values only the string \<open>on\<close> is loosely equal
  to it.
\<close>

definition setLabels :: "jsval \<Rightarrow> manager \<Rightarrow> manager" where
  "setLabels onoff s =
    s\<lparr>props := AList.update ''showLabels'' (JBool (onoff = JStr ''on'')) (props s),
      widgets := map (\<lambda>(key, w). (key, draw w)) (widgets s)\<rparr>"

text \<open>
  The order in which \<open>for-in\<close> gives the keys of an object: the keys that are array
  indices (\<open>0\<close>, or digits with no leading zero, below \<open>2^32 - 1\<close>) first, by their
  number, then the other keys as they were put in.
\<close>

definition index_val :: "string \<Rightarrow> int" where
  "index_val k = foldl (\<lambda>n c. 10 * n + (of_char c - 48)) 0 k"

definition is_index :: "string \<Rightarrow> bool" where
  "is_index k =
     (k \<noteq> [] \<and> list_all (\<lambda>c. c \<in> set ''0123456789'') k \<and>
      (k = ''0'' \<or> hd k \<noteq> CHR ''0'') \<and> index_val k < 2 ^ 32 - 1)"

definition for_in :: "(string \<times> 'a) list \<Rightarrow> (string \<times> 'a) list" where
  "for_in al =
     sort_key (\<lambda>(key, v). index_val key) (filter (\<lambda>(key, v). is_index key) al)
       @ filter (\<lambda>(key, v). \<not> is_index key) al"

text \<open>
  \<open>setProp\<close> writes a property of any name on the manager and on each widget:
  \<open>props\<close> and \<open>wprops\<close> hold what was written, by name. Three names go another way.
  \<^item> \<open>__proto__\<close>: the assignment of a primitive value to it creates no property and
    changes nothing, on the manager and on a widget; the widgets are drawn.
  \<^item> \<open>widgets\<close>: after \<open>nx.widgets = val\<close> the loop runs over \<open>val\<close>. A number or a
    boolean has no keys, so nothing more happens. A string has its character positions
    as keys: \<open>val[key]\<close> is a one-character string, which has no \<open>draw\<close>, and the call
    throws a TypeError.
  \<^item> \<open>draw\<close>: the first widget of the loop gets the value as its \<open>draw\<close>, and calling
    it throws a TypeError.

  The manager's \<open>widgets\<close>, \<open>elemTypeArr\<close>, \<open>aniItems\<close>, \<open>colors\<close> and a widget's
  \<open>canvasID\<close>, \<open>colors\<close>, \<open>draw\<close>, \<open>init\<close> have fields of their own in this model,
  which the other methods read. A value written under one of these names is held in
  \<open>props\<close> and \<open>wprops\<close> like any other and shadows the field. The result says so:
  \<open>Modelled\<close> is a call that returned and wrote none of these names, \<open>Shadowed\<close> a
  call that returned and wrote one, \<open>ShadowedThrew\<close> a call that wrote one and threw a
  TypeError. The definitions of the other methods are for managers without a shadowed
  field.
\<close>

datatype 'a modelled = Modelled 'a | Shadowed 'a | ShadowedThrew 'a

definition member_names :: "string list" where
  "member_names = [''widgets'', ''elemTypeArr'', ''aniItems'', ''colors'',
                   ''canvasID'', ''draw'', ''init'']"

definition setProp :: "string \<Rightarrow> jsval \<Rightarrow> manager \<Rightarrow> manager modelled" where
  "setProp prop val s =
    (if prop \<noteq> [] \<and> truthy val then
       (if prop = ''__proto__'' then
          Modelled (s\<lparr>widgets := map (\<lambda>(key, w). (key, draw w)) (widgets s)\<rparr>)
        else if prop = ''widgets'' then
          (case val of
             JStr v \<Rightarrow> ShadowedThrew (s\<lparr>props := AList.update prop val (props s)\<rparr>)
           | _ \<Rightarrow> Shadowed (s\<lparr>props := AList.update prop val (props s)\<rparr>))
        else if prop = ''draw'' then
          (case for_in (widgets s) of
             [] \<Rightarrow> Shadowed (s\<lparr>props := AList.update prop val (props s)\<rparr>)
           | (key, w) # later \<Rightarrow>
               ShadowedThrew
                 (s\<lparr>props := AList.update prop val (props s),
                    widgets := AList.update key (w\<lparr>wprops := AList.update prop val (wprops w)\<rparr>)
                                 (widgets s)\<rparr>))
        else
          (if prop \<in> set member_names then Shadowed else Modelled)
            (s\<lparr>props := AList.update prop val (props s),
               widgets := map (\<lambda>(key, w).
                             (key, draw (w\<lparr>wprops := AList.update prop val (wprops w)\<rparr>)))
                           (widgets s)\<rparr>))
     else Modelled s)"

subsection \<open>Animation callbacks\<close>

text \<open>\<open>addAni\<close> has an empty body.\<close>

definition addAni :: "callback \<Rightarrow> manager \<Rightarrow> manager" where
  "addAni fn s = s"

text \<open>\<open>Array.prototype.indexOf\<close>: the first index holding the value, or \<open>-1\<close>.\<close>

fun indexOf :: "'a list \<Rightarrow> 'a \<Rightarrow> int" where
  "indexOf [] x = -1"
| "indexOf (y # ys) x =
     (if y = x then 0 else (let r = indexOf ys x in if r < 0 then -1 else r + 1))"

text \<open>
  \<open>Array.prototype.splice\<close> called with the start alone: a negative start counts from
  the end, and every element from the start on is removed.
\<close>

definition splice_from :: "int \<Rightarrow> 'a list \<Rightarrow> 'a list" where
  "splice_from start xs =
    (let len = int (length xs);
         actualStart = (if start < 0 then max (len + start) 0 else min start len)
     in take (nat actualStart) xs)"

definition removeAni :: "callback \<Rightarrow> manager \<Rightarrow> manager" where
  "removeAni fn s = s\<lparr>aniItems := splice_from (indexOf (aniItems s) fn) (aniItems s)\<rparr>"

text \<open>
  \<open>pulse\<close>. A callback is a closure: calling it may change the manager (the callback
  list too) and may throw. \<open>run f s\<close> is what calling \<open>f\<close> on manager \<open>s\<close> does. The
  loop reads \<open>aniItems.length\<close> and \<open>aniItems[i]\<close> afresh at every step, so it need
  not end: not returning is \<open>None\<close>. Beside the manager and the outcome the model
  gives the callbacks that were called, in order.
\<close>

partial_function (option) pulse_loop ::
  "(callback \<Rightarrow> manager \<Rightarrow> manager \<times> unit outcome) \<Rightarrow> nat \<Rightarrow> callback list \<Rightarrow> manager
     \<Rightarrow> (manager \<times> callback list \<times> unit outcome) option"
where
  "pulse_loop run i called s =
    (if i < length (aniItems s) then
       (case run (aniItems s ! i) s of
          (s', Threw e) \<Rightarrow> Some (s', called @ [aniItems s ! i], Threw e)
        | (s', Returned u) \<Rightarrow> pulse_loop run (Suc i) (called @ [aniItems s ! i]) s')
     else Some (s, called, Returned ()))"

definition pulse ::
  "(callback \<Rightarrow> manager \<Rightarrow> manager \<times> unit outcome) \<Rightarrow> manager
     \<Rightarrow> (manager \<times> callback list \<times> unit outcome) option"
where
  "pulse run s = pulse_loop run 0 [] s"

declare pulse_loop.simps [code]

text \<open>
  What the tick is meant to do, on a fixed list: call each callback once, in order, and
  stop at the first that throws.
\<close>

fun call_each ::
  "(callback \<Rightarrow> manager \<Rightarrow> manager \<times> unit outcome) \<Rightarrow> callback list \<Rightarrow> manager
     \<Rightarrow> manager \<times> callback list \<times> unit outcome"
where
  "call_each run [] s = (s, [], Returned ())"
| "call_each run (f # fs) s =
     (case run f s of
        (s', Threw e) \<Rightarrow> (s', [f], Threw e)
      | (s', Returned u) \<Rightarrow>
          (case call_each run fs s' of (s'', called, r) \<Rightarrow> (s'', f # called, r)))"

subsection \<open>What is assumed of the widget catalog\<close>

text \<open>
  Modelled from the spec: the constructors of the catalog are not in this file. A widget
  built for an identifier carries that identifier as its \<open>canvasID\<close> (the spec: a
  widget's identifier is equal to the backing surface's element identifier).
\<close>

definition catalog_ok :: "catalog \<Rightarrow> bool" where
  "catalog_ok cat =
     (\<forall>nxType ctor i w. cat nxType = Some ctor \<longrightarrow> ctor i = Some w \<longrightarrow> canvasID w = i)"

subsection \<open>Test fixtures\<close>

text \<open>
  A catalog with three widget types, whose widgets start with a copy of the default
  colours and of the default throttle period, and a manager as the constructor leaves it.
\<close>

definition plain_widget :: "string \<Rightarrow> widget" where
  "plain_widget i =
     \<lparr> canvasID = i,
       wcolors = [(''accent'', JStr ''#ff5500''), (''fill'', JStr ''#eee''),
                  (''border'', JStr ''#bbb''), (''black'', JStr ''#000''),
                  (''white'', JStr ''#FFF'')],
       wprops = [(''throttlePeriod'', JNum 20)],
       inits = 0,
       draws = 0 \<rparr>"

definition test_catalog :: catalog where
  "test_catalog nxType =
     (if nxType \<in> set [''dial'', ''toggle'', ''button'']
      then Some (\<lambda>i. Some (plain_widget i)) else None)"

definition nx0 :: manager where
  "nx0 = manager_init 0 False"

definition unnamed :: "string \<Rightarrow> canvas" where
  "unnamed nxType = \<lparr> cid = [], nx_attr = Some nxType \<rparr>"

definition named :: "string \<Rightarrow> string \<Rightarrow> canvas" where
  "named i nxType = \<lparr> cid = i, nx_attr = Some nxType \<rparr>"

text \<open>A manager with one dial registered.\<close>

definition nx1 :: manager where
  "nx1 = fst (transform test_catalog nx0 (unnamed ''dial'') None)"

text \<open>Then a dial named \<open>mainDial\<close>, then another unnamed dial.\<close>

definition nx2 :: manager where
  "nx2 = fst (transform test_catalog nx1 (named ''mainDial'' ''dial'') None)"

definition nx3 :: manager where
  "nx3 = fst (transform test_catalog nx2 (unnamed ''dial'') None)"

text \<open>
  Callbacks for the tick. Under \<open>log_run\<close> callback \<open>9\<close> throws and every other
  callback logs its number. Under \<open>shift_run\<close> callback \<open>0\<close> is a one-shot animation:
  it takes the first entry off the list (\<open>nx.aniItems.shift()\<close>), which is itself when
  it is registered first; the others are as under \<open>log_run\<close>.
\<close>

definition log_run :: "callback \<Rightarrow> manager \<Rightarrow> manager \<times> unit outcome" where
  "log_run f s =
     (if f = 9 then (s, Threw (Thrown (JStr ''boom'')))
      else (s\<lparr>console := console s @ [digits f]\<rparr>, Returned ()))"

definition shift_run :: "callback \<Rightarrow> manager \<Rightarrow> manager \<times> unit outcome" where
  "shift_run f s =
     (if f = 0 then (s\<lparr>aniItems := tl (aniItems s)\<rparr>, Returned ()) else log_run f s)"

section \<open>Properties\<close>

subsection \<open>Evaluation of the fixtures\<close>

lemma digits_small: "n < 10 \<Longrightarrow> digits n = [digit n]"
  by (simp add: digits.simps)

lemma digit_values:
  "digit 0 = CHR ''0''" "digit 1 = CHR ''1''" "digit 2 = CHR ''2''" "digit 3 = CHR ''3''"
  "digit (Suc 0) = CHR ''1''" "digit (Suc (Suc 0)) = CHR ''2''"
  "digit (Suc (Suc (Suc 0))) = CHR ''3''"
  by (simp_all add: digit_def)

lemma digits_1: "digits (Suc 0) = ''1''"
  by (simp add: digits_small digit_values)

lemma digits_3: "digits 3 = ''3''"
  by (simp add: digits_small digit_values)

lemmas eval_defs =
  transform_def nx0_def manager_init_def unnamed_def named_def registered_def resolve_def
  elemCount_def construct_def test_catalog_def digits_small digit_values Let_def
  plain_widget_def init_def

lemma nx1_value:
  "nx1 = nx0\<lparr>widgets := [(''dial1'', init (plain_widget ''dial1''))],
              elemTypeArr := [''dial''], window := [''dial1'']\<rparr>"
  unfolding nx1_def by (simp add: eval_defs)

lemma first_dial:
  "transform test_catalog nx0 (unnamed ''dial'') None =
     (nx1, named ''dial1'' ''dial'', Returned (Some (init (plain_widget ''dial1''))))"
  unfolding nx1_def by (simp add: eval_defs)

lemma nx2_value:
  "nx2 = nx0\<lparr>widgets := [(''dial1'', init (plain_widget ''dial1'')),
                           (''mainDial'', init (plain_widget ''mainDial''))],
              elemTypeArr := [''dial'', ''dial''], window := [''dial1'', ''mainDial'']\<rparr>"
  unfolding nx2_def nx1_value by (simp add: eval_defs)

lemma second_dial:
  "transform test_catalog nx1 (named ''mainDial'' ''dial'') None =
     (nx2, named ''mainDial'' ''dial'', Returned (Some (init (plain_widget ''mainDial''))))"
  unfolding nx2_def nx1_value by (simp add: eval_defs)

lemma third_dial:
  "transform test_catalog nx2 (unnamed ''dial'') None =
     (nx3, named ''dial3'' ''dial'', Returned (Some (init (plain_widget ''dial3''))))"
  unfolding nx3_def nx2_value by (simp add: eval_defs)

lemma nx3_keys: "map fst (widgets nx3) = [''dial1'', ''mainDial'', ''dial3'']"
  unfolding nx3_def nx2_value by (simp add: eval_defs)

lemma test_catalog_ok: "catalog_ok test_catalog"
  by (auto simp: catalog_ok_def test_catalog_def plain_widget_def split: if_splits)

subsection \<open>How \<open>transform\<close> goes on after the guard and the type resolution\<close>

lemma registered_iff:
  "registered s i \<longleftrightarrow> (\<exists>(key, w) \<in> set (widgets s). canvasID w = i)"
  by (simp add: registered_def list_ex_iff)

lemma fold_count: "fold (\<lambda>t n. if t = x then n + 1 else n) arr k = k + count_list arr x"
  by (induction arr arbitrary: k) auto

lemma elemCount_count_list: "elemCount arr x = count_list arr x"
  by (simp add: elemCount_def fold_count)

lemma transform_returns_early:
  assumes "registered s (cid canv) \<or> resolve canv type = None \<or> resolve canv type = Some []"
  shows "transform cat s canv type = (s, canv, Returned None)"
  using assms by (auto simp add: transform_def)

lemma transform_ledger:
  assumes "\<not> registered s (cid canv)" "resolve canv type = Some ty" "ty \<noteq> []"
  shows "elemTypeArr (fst (transform cat s canv type)) = elemTypeArr s @ [ty]"
  using assms by (simp add: transform_def Let_def split: option.split)

lemma transform_id:
  assumes "\<not> registered s (cid canv)" "resolve canv type = Some ty" "ty \<noteq> []"
  shows "cid (fst (snd (transform cat s canv type))) =
           (if cid canv = [] then ty @ digits (count_list (elemTypeArr s) ty + 1) else cid canv)"
  using assms by (simp add: transform_def Let_def elemCount_count_list split: option.split)

lemma transform_widgets:
  assumes "\<not> registered s (cid canv)" "resolve canv type = Some ty" "ty \<noteq> []"
  shows "widgets (fst (transform cat s canv type)) =
           (case construct cat ty (cid (fst (snd (transform cat s canv type)))) of
              None \<Rightarrow> widgets s
            | Some w \<Rightarrow>
                AList.update (canvasID w) (init w) (AList.update (canvasID w) w (widgets s)))"
  using assms by (simp add: transform_def Let_def split: option.split)

lemma set_update_subset: "set (AList.update k v al) \<subseteq> insert (k, v) (set al)"
  by (induction al) auto

lemma construct_canvasID:
  "catalog_ok cat \<Longrightarrow> construct cat ty i = Some w \<Longrightarrow> canvasID w = i"
  by (auto simp: catalog_ok_def construct_def split: option.splits)

lemma canvasID_init [simp]: "canvasID (init w) = canvasID w"
  by (simp add: init_def)

text \<open>
  With a catalog whose widgets carry the identifier they were built for, the only
  identifier a call can add to the registry is the one the surface ends up with.
\<close>

lemma transform_registered_after:
  assumes ok: "catalog_ok cat" and r: "registered (fst (transform cat s canv type)) i"
  shows "registered s i \<or> i = cid (fst (snd (transform cat s canv type)))"
proof (cases "registered s (cid canv) \<or> resolve canv type = None \<or> resolve canv type = Some []")
  case True
  then show ?thesis using r by (simp add: transform_returns_early)
next
  case False
  then obtain ty where h: "\<not> registered s (cid canv)" "resolve canv type = Some ty" "ty \<noteq> []"
    by (cases "resolve canv type") auto
  let ?i = "cid (fst (snd (transform cat s canv type)))"
  show ?thesis
  proof (cases "construct cat ty ?i")
    case None
    then show ?thesis using r transform_widgets [OF h, of cat]
      by (simp add: registered_iff)
  next
    case (Some w)
    then have cw: "canvasID w = ?i" using ok by (rule construct_canvasID [rotated])
    from r obtain key w' where
      m: "(key, w') \<in> set (widgets (fst (transform cat s canv type)))" and i: "canvasID w' = i"
      by (auto simp: registered_iff)
    from m Some transform_widgets [OF h, of cat]
    have "(key, w') \<in>
            set (AList.update (canvasID w) (init w) (AList.update (canvasID w) w (widgets s)))"
      by simp
    then have "(key, w') = (canvasID w, init w) \<or> (key, w') = (canvasID w, w)
                \<or> (key, w') \<in> set (widgets s)"
      using set_update_subset by fastforce
    then show ?thesis using i cw by (auto simp: registered_iff)
  qed
qed

text \<open>
  No registered widget has the empty identifier: that holds of the manager as the
  constructor leaves it, and \<open>transform\<close> keeps it. The broadcasts do not touch a
  \<open>canvasID\<close>.
\<close>

lemma manager_init_unregistered: "\<not> registered (manager_init now touch) i"
  by (simp add: registered_def manager_init_def)

lemma transform_keeps_named:
  assumes "catalog_ok cat" and "\<not> registered s []"
  shows "\<not> registered (fst (transform cat s canv type)) []"
proof
  assume r: "registered (fst (transform cat s canv type)) []"
  with transform_registered_after [OF assms(1) r] assms(2)
  have e: "cid (fst (snd (transform cat s canv type))) = []" by simp
  show False
  proof (cases "registered s (cid canv) \<or> resolve canv type = None \<or> resolve canv type = Some []")
    case True
    with r assms(2) show False by (simp add: transform_returns_early)
  next
    case False
    then obtain ty where
      h: "\<not> registered s (cid canv)" "resolve canv type = Some ty" "ty \<noteq> []"
      by (cases "resolve canv type") auto
    from transform_id [OF h, of cat] e h(3) show False
      by (auto split: if_splits)
  qed
qed

subsection \<open>The guard\<close>

text \<open>
  C3. A call of \<open>transform\<close> on a surface whose identifier is the \<open>canvasID\<close> of a
  registered widget returns nothing and leaves the manager and the surface as they were:
  the registry holds what it held (the one widget under that identifier stays the only
  one), and the ledger gets no entry.
\<close>

theorem transform_registered_noop:
  assumes "registered s (cid canv)"
  shows "transform cat s canv type = (s, canv, Returned None)"
  using assms by (simp add: transform_def)

text \<open>
  The first call on an unnamed dial surface names it \<open>dial1\<close> and registers the widget;
  the second call on that surface changes nothing: one widget has that identifier and
  the ledger has its one entry.
\<close>

theorem transform_registered_noop_witness:
  "fst (snd (transform test_catalog nx0 (unnamed ''dial'') None)) = named ''dial1'' ''dial'' \<and>
   registered nx1 (cid (named ''dial1'' ''dial'')) \<and>
   transform test_catalog nx1 (named ''dial1'' ''dial'') None
     = (nx1, named ''dial1'' ''dial'', Returned None) \<and>
   length (filter (\<lambda>(key, w). canvasID w = ''dial1'') (widgets nx1)) = 1 \<and>
   elemTypeArr nx1 = [''dial'']"
proof -
  have reg: "registered nx1 (cid (named ''dial1'' ''dial''))"
    by (simp add: nx1_value registered_def named_def init_def plain_widget_def)
  have "transform test_catalog nx1 (named ''dial1'' ''dial'') None
          = (nx1, named ''dial1'' ''dial'', Returned None)"
    using transform_registered_noop [OF reg] .
  with reg show ?thesis
    by (simp add: first_dial nx1_value init_def plain_widget_def)
qed

subsection \<open>Identifiers of unnamed surfaces\<close>

lemma transform_all_ids:
  assumes ok: "catalog_ok cat" and ty: "ty \<noteq> []"
  shows "\<not> registered s [] \<Longrightarrow>
         \<forall>(canv, type) \<in> set calls. cid canv = [] \<and> resolve canv type = Some ty \<Longrightarrow>
         map cid (snd (transform_all cat s calls)) =
           map (\<lambda>k. ty @ digits k)
             [Suc (count_list (elemTypeArr s) ty) ..<
              Suc (count_list (elemTypeArr s) ty) + length calls]"
proof (induction calls arbitrary: s)
  case Nil
  then show ?case by simp
next
  case (Cons call calls)
  obtain canv type where call: "call = (canv, type)" by (cases call)
  let ?t = "transform cat s canv type"
  let ?n = "count_list (elemTypeArr s) ty"
  from Cons.prems call have c: "cid canv = []" and rs: "resolve canv type = Some ty"
    by auto
  from Cons.prems(1) c have nr: "\<not> registered s (cid canv)" by simp
  have idc: "cid (fst (snd ?t)) = ty @ digits (Suc ?n)"
    using transform_id [OF nr rs ty, of cat] c by simp
  have led: "elemTypeArr (fst ?t) = elemTypeArr s @ [ty]"
    by (rule transform_ledger [OF nr rs ty])
  have "\<not> registered (fst ?t) []"
    by (rule transform_keeps_named [OF ok Cons.prems(1)])
  moreover have "\<forall>(canv, type) \<in> set calls. cid canv = [] \<and> resolve canv type = Some ty"
    using Cons.prems(2) by simp
  ultimately have IH: "map cid (snd (transform_all cat (fst ?t) calls)) =
      map (\<lambda>k. ty @ digits k) [Suc (Suc ?n) ..< Suc (Suc ?n) + length calls]"
    using Cons.IH [of "fst ?t"] led by simp
  have "map cid (snd (transform_all cat s (call # calls))) =
          cid (fst (snd ?t)) # map cid (snd (transform_all cat (fst ?t) calls))"
    by (simp add: call split: prod.split)
  also have "\<dots> =
      map (\<lambda>k. ty @ digits k) (Suc ?n # [Suc (Suc ?n) ..< Suc (Suc ?n) + length calls])"
    using idc IH by simp
  also have "Suc ?n # [Suc (Suc ?n) ..< Suc (Suc ?n) + length calls]
               = [Suc ?n ..< Suc ?n + length (call # calls)]"
  proof -
    have "[Suc ?n ..< Suc ?n + length (call # calls)]
            = Suc ?n # [Suc (Suc ?n) ..< Suc ?n + length (call # calls)]"
      by (rule upt_conv_Cons) simp
    then show ?thesis by simp
  qed
  finally show ?case .
qed

text \<open>
  C1. Take any run of \<open>transform\<close> calls on surfaces that have no identifier and all
  resolve to one type \<open>ty\<close> (by the \<open>type\<close> argument or the \<open>nx\<close> attribute), starting
  from a manager whose ledger has no entry for \<open>ty\<close>. The identifiers the surfaces get
  are \<open>ty1\<close>, \<open>ty2\<close>, \<open>ty3\<close>, ... in the order of the calls, whether or not the widgets
  can be built. The surfaces of the list are distinct objects: each call gets its own.
  The catalog is as \<open>catalog_ok\<close> says and no registered widget has the empty
  identifier, as in every manager built by the constructor and \<open>transform\<close>.
\<close>

theorem transform_sequential_ids:
  assumes "catalog_ok cat" and "ty \<noteq> []" and "ty \<notin> set (elemTypeArr s)"
    and "\<not> registered s []"
    and "\<forall>(canv, type) \<in> set calls. cid canv = [] \<and> resolve canv type = Some ty"
  shows "map cid (snd (transform_all cat s calls)) =
           map (\<lambda>k. ty @ digits k) [1 ..< Suc (length calls)]"
proof -
  have "count_list (elemTypeArr s) ty = 0"
    using assms(3) by simp
  with transform_all_ids [OF assms(1,2,4,5)] show ?thesis
    by simp
qed

text \<open>
  Three calls on the fresh manager: a surface tagged \<open>dial\<close>, an untagged surface with
  the type given as argument, and a surface tagged \<open>toggle\<close> with the argument \<open>dial\<close>.
\<close>

theorem transform_sequential_ids_witness:
  "catalog_ok test_catalog \<and> ''dial'' \<noteq> [] \<and> ''dial'' \<notin> set (elemTypeArr nx0) \<and>
   \<not> registered nx0 [] \<and>
   list_all (\<lambda>(canv, type). cid canv = [] \<and> resolve canv type = Some ''dial'')
     [(unnamed ''dial'', None), (\<lparr>cid = [], nx_attr = None\<rparr>, Some ''dial''),
      (unnamed ''toggle'', Some ''dial'')] \<and>
   map cid (snd (transform_all test_catalog nx0
     [(unnamed ''dial'', None), (\<lparr>cid = [], nx_attr = None\<rparr>, Some ''dial''),
      (unnamed ''toggle'', Some ''dial'')]))
     = [''dial1'', ''dial2'', ''dial3'']"
proof -
  let ?calls = "[(unnamed ''dial'', None), (\<lparr>cid = [], nx_attr = None\<rparr>, Some ''dial''),
      (unnamed ''toggle'', Some ''dial'')]"
  have a: "''dial'' \<notin> set (elemTypeArr nx0)" "\<not> registered nx0 []"
    by (simp_all add: nx0_def manager_init_def registered_def)
  have b: "\<forall>(canv, type) \<in> set ?calls. cid canv = [] \<and> resolve canv type = Some ''dial''"
    by (simp add: unnamed_def resolve_def)
  have c: "''dial'' \<noteq> []" by simp
  have "map cid (snd (transform_all test_catalog nx0 ?calls))
          = map (\<lambda>k. ''dial'' @ digits k) [1 ..< Suc (length ?calls)]"
    by (rule transform_sequential_ids [OF test_catalog_ok c a b])
  also have "\<dots> = [''dial1'', ''dial2'', ''dial3'']"
    by (simp add: upt_rec digits_small digit_def)
  finally show ?thesis
    using a test_catalog_ok b by (simp add: list_all_iff)
qed

subsection \<open>The ledger counts named widgets too\<close>

text \<open>
  C2. Whenever \<open>transform\<close> gets past the guard and resolves a type, it appends the type
  name to the ledger, whether or not the surface has an identifier of its own.
  So an unnamed surface of type \<open>ty\<close> (not in the ledger before) gets \<open>ty1\<close>; a
  surface of that type with the identifier \<open>name\<close> keeps \<open>name\<close>, and the ledger has two
  entries for \<open>ty\<close>; the next unnamed surface gets \<open>ty3\<close>, not \<open>ty2\<close>. With \<open>ty\<close> the
  type \<open>dial\<close> and \<open>name\<close> the identifier \<open>mainDial\<close> this is the scenario of the claim.
\<close>

theorem transform_counts_every_widget:
  assumes ok: "catalog_ok cat" and ty: "ty \<noteq> []" and nm: "name \<noteq> []" "name \<noteq> ty @ ''1''"
    and fresh: "ty \<notin> set (elemTypeArr s)"
    and reg: "\<not> registered s []" "\<not> registered s name"
    and c1: "transform cat s (unnamed ty) None = (s1, canv1, r1)"
    and c2: "transform cat s1 (named name ty) None = (s2, canv2, r2)"
    and c3: "transform cat s2 (unnamed ty) None = (s3, canv3, r3)"
  shows "(\<forall>m canv type nxType.
            \<not> registered m (cid canv) \<longrightarrow> resolve canv type = Some nxType \<longrightarrow> nxType \<noteq> [] \<longrightarrow>
            elemTypeArr (fst (transform cat m canv type)) = elemTypeArr m @ [nxType]) \<and>
         cid canv1 = ty @ ''1'' \<and> cid canv2 = name \<and>
         elemTypeArr s2 = elemTypeArr s @ [ty, ty] \<and> cid canv3 = ty @ ''3''"
proof -
  have un: "cid (unnamed ty) = []" "resolve (unnamed ty) None = Some ty"
    and na: "cid (named name ty) = name" "resolve (named name ty) None = Some ty"
    by (simp_all add: unnamed_def named_def resolve_def)
  have n0: "count_list (elemTypeArr s) ty = 0" using fresh by simp
  \<comment> \<open>the first call\<close>
  have g1: "\<not> registered s (cid (unnamed ty))" using reg(1) un by simp
  have id1: "cid canv1 = ty @ ''1''"
    using transform_id [OF g1 un(2) ty, of cat] c1 un(1) n0 by (simp add: digits_1)
  have l1: "elemTypeArr s1 = elemTypeArr s @ [ty]"
    using transform_ledger [OF g1 un(2) ty, of cat] c1 by simp
  have r1: "\<not> registered s1 []"
    using transform_keeps_named [OF ok reg(1), of "unnamed ty" None] c1 by simp
  have g2: "\<not> registered s1 (cid (named name ty))"
  proof
    assume "registered s1 (cid (named name ty))"
    then have "registered (fst (transform cat s (unnamed ty) None)) name" using c1 na by simp
    from transform_registered_after [OF ok this] reg(2) c1 id1 nm(2) show False by simp
  qed
  \<comment> \<open>the second call\<close>
  have id2: "cid canv2 = name"
    using transform_id [OF g2 na(2) ty, of cat] c2 na(1) nm(1) by simp
  have l2: "elemTypeArr s2 = elemTypeArr s @ [ty, ty]"
    using transform_ledger [OF g2 na(2) ty, of cat] c2 l1 by simp
  have r2: "\<not> registered s2 []"
    using transform_keeps_named [OF ok r1, of "named name ty" None] c2 by simp
  \<comment> \<open>the third call\<close>
  have g3: "\<not> registered s2 (cid (unnamed ty))" using r2 un by simp
  have "count_list (elemTypeArr s2) ty = 2" using l2 n0 by simp
  then have id3: "cid canv3 = ty @ ''3''"
    using transform_id [OF g3 un(2) ty, of cat] c3 un(1) by (simp add: digits_3)
  have "\<forall>m canv type nxType.
            \<not> registered m (cid canv) \<longrightarrow> resolve canv type = Some nxType \<longrightarrow> nxType \<noteq> [] \<longrightarrow>
            elemTypeArr (fst (transform cat m canv type)) = elemTypeArr m @ [nxType]"
    using transform_ledger by blast
  with id1 id2 l2 id3 show ?thesis by simp
qed

text \<open>
  On the fresh manager: \<open>dial1\<close>, then \<open>mainDial\<close>, then \<open>dial3\<close>; all three widgets
  are registered.
\<close>

theorem transform_counts_every_widget_witness:
  "catalog_ok test_catalog \<and> \<not> registered nx0 [] \<and> \<not> registered nx0 ''mainDial'' \<and>
   ''dial'' \<notin> set (elemTypeArr nx0) \<and>
   transform test_catalog nx0 (unnamed ''dial'') None =
     (nx1, named ''dial1'' ''dial'', Returned (Some (init (plain_widget ''dial1'')))) \<and>
   transform test_catalog nx1 (named ''mainDial'' ''dial'') None =
     (nx2, named ''mainDial'' ''dial'', Returned (Some (init (plain_widget ''mainDial'')))) \<and>
   transform test_catalog nx2 (unnamed ''dial'') None =
     (nx3, named ''dial3'' ''dial'', Returned (Some (init (plain_widget ''dial3'')))) \<and>
   elemTypeArr nx2 = [''dial'', ''dial''] \<and>
   cid (named ''dial3'' ''dial'') = ''dial3'' \<and>
   map fst (widgets nx3) = [''dial1'', ''mainDial'', ''dial3'']"
proof -
  have a: "\<not> registered nx0 []" "\<not> registered nx0 ''mainDial''"
    "''dial'' \<notin> set (elemTypeArr nx0)"
    by (simp_all add: nx0_def manager_init_def registered_def)
  have b: "''dial'' \<noteq> []" "''mainDial'' \<noteq> []" "''mainDial'' \<noteq> ''dial'' @ ''1''"
    by simp_all
  from transform_counts_every_widget
    [OF test_catalog_ok b a(3) a(1) a(2) first_dial second_dial third_dial]
  have "elemTypeArr nx2 = elemTypeArr nx0 @ [''dial'', ''dial'']"
    and "cid (named ''dial3'' ''dial'') = ''dial'' @ ''3''"
    by simp_all
  then have "elemTypeArr nx2 = [''dial'', ''dial'']" "cid (named ''dial3'' ''dial'') = ''dial3''"
    by (simp_all add: nx0_def manager_init_def)
  then show ?thesis
    using a test_catalog_ok first_dial second_dial third_dial nx3_keys by simp
qed

subsection \<open>When construction throws\<close>

text \<open>
  C4, as the code has it. When \<open>transform\<close> gets to the construction and the
  construction throws (the type is not in the catalog, or the constructor throws), the
  \<open>catch\<close> swallows that exception and logs the type name, and nothing else. The
  registration that follows then fails on the undefined result: the call throws a
  TypeError, the registry and the global namespace are as before, and the ledger has
  the new entry.
\<close>

theorem transform_construction_failure:
  assumes "\<not> registered s (cid canv)" and "resolve canv type = Some ty" and "ty \<noteq> []"
    and "transform cat s canv type = (s', canv', r)"
    and "construct cat ty (cid canv') = None"
  shows "r = Threw TypeError \<and> widgets s' = widgets s \<and> window s' = window s \<and>
         console s' = console s @ [ty] \<and> elemTypeArr s' = elemTypeArr s @ [ty]"
  using assms by (auto simp add: transform_def Let_def split: option.splits if_splits)

text \<open>
  C4, as the claim has it, fails: for a surface tagged \<open>knob\<close>, a type the catalog does
  not have, the call throws and nothing is put in the registry.
\<close>

theorem transform_unknown_type_throws:
  "snd (snd (transform test_catalog nx0 (unnamed ''knob'') None)) = Threw TypeError \<and>
   widgets (fst (transform test_catalog nx0 (unnamed ''knob'') None)) = [] \<and>
   console (fst (transform test_catalog nx0 (unnamed ''knob'') None)) = [''knob'']"
  by (simp add: transform_def nx0_def manager_init_def unnamed_def registered_def
      resolve_def construct_def test_catalog_def Let_def)

theorem transform_construction_failure_witness:
  "\<not> registered nx0 (cid (unnamed ''knob'')) \<and> resolve (unnamed ''knob'') None = Some ''knob'' \<and>
   construct test_catalog ''knob'' ''knob1'' = None \<and>
   transform test_catalog nx0 (unnamed ''knob'') None =
     (nx0\<lparr>elemTypeArr := [''knob''], console := [''knob'']\<rparr>, named ''knob1'' ''knob'',
      Threw TypeError)"
proof -
  have a: "\<not> registered nx0 (cid (unnamed ''knob''))"
    by (simp add: nx0_def manager_init_def registered_def)
  have b: "resolve (unnamed ''knob'') None = Some ''knob''"
    by (simp add: resolve_def unnamed_def)
  have c: "''knob'' \<noteq> []" by simp
  obtain s' canv' r where
    t: "transform test_catalog nx0 (unnamed ''knob'') None = (s', canv', r)"
    by (cases "transform test_catalog nx0 (unnamed ''knob'') None")
  have d: "construct test_catalog ''knob'' (cid canv') = None"
    by (simp add: construct_def test_catalog_def)
  from transform_construction_failure [OF a b c t d]
  have "r = Threw TypeError" by simp
  moreover have "s' = nx0\<lparr>elemTypeArr := [''knob''], console := [''knob'']\<rparr>"
      "canv' = named ''knob1'' ''knob''"
    using t by (simp_all add: eval_defs)
  ultimately show ?thesis using a b t d by (simp add: named_def)
qed

subsection \<open>Removing an animation callback\<close>

lemma indexOf_absent: "x \<notin> set xs \<Longrightarrow> indexOf xs x = - 1"
  by (induction xs) (auto simp: Let_def)

lemma indexOf_present:
  "x \<in> set xs \<Longrightarrow> indexOf xs x = int (length (takeWhile (\<lambda>y. y \<noteq> x) xs))"
  by (induction xs) (auto simp: Let_def indexOf_absent)

lemma splice_from_absent: "splice_from (- 1) xs = butlast xs"
  by (cases xs rule: rev_cases) (auto simp: splice_from_def Let_def butlast_conv_take)

lemma splice_from_nat: "n \<le> length xs \<Longrightarrow> splice_from (int n) xs = take n xs"
  by (simp add: splice_from_def Let_def)

lemma splice_from_present:
  "splice_from (int (length (takeWhile P xs))) xs = takeWhile P xs"
proof -
  have "splice_from (int (length (takeWhile P xs))) xs = take (length (takeWhile P xs)) xs"
    by (rule splice_from_nat) (rule length_takeWhile_le)
  also have "\<dots> = takeWhile P xs"
    by (rule takeWhile_eq_take [symmetric])
  finally show ?thesis .
qed

text \<open>
  What \<open>removeAni\<close> does on any list: the callback and everything after its first
  occurrence go; when the callback is not in the list, the last entry goes.
\<close>

lemma removeAni_result:
  "aniItems (removeAni fn s) =
     (if fn \<in> set (aniItems s) then takeWhile (\<lambda>y. y \<noteq> fn) (aniItems s)
      else butlast (aniItems s))"
  by (simp add: removeAni_def indexOf_absent indexOf_present splice_from_absent
      splice_from_present)

text \<open>
  C5. With the callbacks \<open>1, 2, 3\<close> registered, removing \<open>1\<close> empties the list and
  removing \<open>2\<close> leaves \<open>1\<close> alone, where the claim keeps \<open>2, 3\<close> and \<open>1, 3\<close>; removing
  \<open>7\<close>, which is not registered, takes \<open>3\<close> away, where the claim leaves the list as it
  is.
\<close>

theorem removeAni_drops_tail:
  "aniItems (removeAni 1 (nx0\<lparr>aniItems := [1, 2, 3]\<rparr>)) = [] \<and>
   aniItems (removeAni 2 (nx0\<lparr>aniItems := [1, 2, 3]\<rparr>)) = [1] \<and>
   aniItems (removeAni 7 (nx0\<lparr>aniItems := [1, 2, 3]\<rparr>)) = [1, 2]"
  by (simp add: removeAni_def splice_from_def)

subsection \<open>Broadcasts\<close>

lemma draw_fields [simp]:
  "draws (draw w) = Suc (draws w)" "canvasID (draw w) = canvasID w"
  "wprops (draw w) = wprops w" "wcolors (draw w) = wcolors w" "inits (draw w) = inits w"
  by (simp_all add: draw_def)

text \<open>
  C6, as the code has it. For a name that is not empty, and is not \<open>widgets\<close>, \<open>draw\<close>
  or \<open>__proto__\<close>, and a truthy value, \<open>setProp\<close> returns, having set the property on
  the manager and on every registered widget and drawn every widget once; no name is
  turned away for not being a known property (the names of \<open>member_names\<close> are written
  like the others, and the result is marked \<open>Shadowed\<close>). For an empty name or a falsy
  value (\<open>0\<close>, \<open>false\<close>, the empty string, \<open>null\<close>, \<open>undefined\<close>) it does nothing.
\<close>

theorem setProp_broadcast:
  "(prop \<noteq> [] \<and> truthy val \<and> prop \<notin> set [''widgets'', ''draw'', ''__proto__''] \<longrightarrow>
      (\<exists>s'. setProp prop val s = (if prop \<in> set member_names then Shadowed s' else Modelled s') \<and>
         map_of (props s') prop = Some val \<and>
         list_all2 (\<lambda>(key, w) (key', w'). key' = key \<and>
              map_of (wprops w') prop = Some val \<and> draws w' = Suc (draws w))
           (widgets s) (widgets s'))) \<and>
   (prop = [] \<or> \<not> truthy val \<longrightarrow> setProp prop val s = Modelled s)"
  by (auto simp add: setProp_def update_conv' list_all2_map2 list_all2_same split_beta)

text \<open>
  C6, as the claim has it (every name and value), fails, here with one dial registered.
  \<open>setProp("fontSize", 0)\<close> leaves the font size at 14, gives the dial no such
  property and does not draw it. \<open>setProp("__proto__", 5)\<close> draws the dial and sets no
  property. \<open>setProp("widgets", 5)\<close> sets the property on the manager and neither sets
  it on the dial nor draws the dial. \<open>setProp("draw", 5)\<close> sets the property on the
  manager and on the dial and throws before any drawing.
\<close>

theorem setProp_not_every_pair:
  "setProp ''fontSize'' (JNum 0) nx1 = Modelled nx1 \<and>
   map_of (props nx1) ''fontSize'' = Some (JNum 14) \<and>
   map (\<lambda>(key, w). (key, map_of (wprops w) ''fontSize'', draws w)) (widgets nx1)
     = [(''dial1'', None, 0)] \<and>
   setProp ''__proto__'' (JNum 5) nx1
     = Modelled (nx1\<lparr>widgets := [(''dial1'', draw (init (plain_widget ''dial1'')))]\<rparr>) \<and>
   map_of (props nx1) ''__proto__'' = None \<and>
   map_of (wprops (draw (init (plain_widget ''dial1'')))) ''__proto__'' = None \<and>
   setProp ''widgets'' (JNum 5) nx1
     = Shadowed (nx1\<lparr>props := props nx1 @ [(''widgets'', JNum 5)]\<rparr>) \<and>
   map (\<lambda>(key, w). (key, map_of (wprops w) ''widgets'', draws w)) (widgets nx1)
     = [(''dial1'', None, 0)] \<and>
   setProp ''draw'' (JNum 5) nx1
     = ShadowedThrew
         (nx1\<lparr>props := props nx1 @ [(''draw'', JNum 5)],
              widgets := [(''dial1'', (init (plain_widget ''dial1''))
                             \<lparr>wprops := [(''throttlePeriod'', JNum 20), (''draw'', JNum 5)]\<rparr>)]\<rparr>)"
  by (simp add: setProp_def for_in_def is_index_def nx1_value nx0_def manager_init_def
      plain_widget_def init_def draw_def)

text \<open>
  A name of no special standing (\<open>fontSize\<close>) and one the model keeps in a field
  (\<open>colors\<close>), each with a truthy value, and the empty name.
\<close>

theorem setProp_broadcast_witness:
  "''fontSize'' \<noteq> [] \<and> truthy (JNum 3) \<and>
   ''fontSize'' \<notin> set [''widgets'', ''draw'', ''__proto__''] \<and>
   (case setProp ''fontSize'' (JNum 3) nx1 of
      Modelled s' \<Rightarrow>
        map_of (props s') ''fontSize'' = Some (JNum 3) \<and>
        map (\<lambda>(key, w). (key, map_of (wprops w) ''fontSize'', draws w)) (widgets s')
          = [(''dial1'', Some (JNum 3), 1)]
    | _ \<Rightarrow> False) \<and>
   (case setProp ''colors'' (JStr ''red'') nx1 of
      Shadowed s' \<Rightarrow>
        map_of (props s') ''colors'' = Some (JStr ''red'') \<and>
        map (\<lambda>(key, w). (key, map_of (wprops w) ''colors'', draws w)) (widgets s')
          = [(''dial1'', Some (JStr ''red''), 1)]
    | _ \<Rightarrow> False) \<and>
   setProp [] (JNum 3) nx1 = Modelled nx1"
proof -
  have a: "''fontSize'' \<noteq> [] \<and> truthy (JNum 3) \<and>
           ''fontSize'' \<notin> set [''widgets'', ''draw'', ''__proto__'']"
    and b: "''colors'' \<noteq> [] \<and> truthy (JStr ''red'') \<and>
           ''colors'' \<notin> set [''widgets'', ''draw'', ''__proto__'']"
    by simp_all
  have m: "''fontSize'' \<notin> set member_names" "''colors'' \<in> set member_names"
    by (simp_all add: member_names_def)
  from a m setProp_broadcast [of "''fontSize''" "JNum 3" nx1]
  obtain s1 where s1: "setProp ''fontSize'' (JNum 3) nx1 = Modelled s1"
      "map_of (props s1) ''fontSize'' = Some (JNum 3)"
    by auto
  from b m setProp_broadcast [of "''colors''" "JStr ''red''" nx1]
  obtain s2 where s2: "setProp ''colors'' (JStr ''red'') nx1 = Shadowed s2"
      "map_of (props s2) ''colors'' = Some (JStr ''red'')"
    by auto
  have "map (\<lambda>(key, w). (key, map_of (wprops w) ''fontSize'', draws w)) (widgets s1)
        = [(''dial1'', Some (JNum 3), 1)]"
    using s1(1)
    by (auto simp add: setProp_def member_names_def nx1_value nx0_def manager_init_def
        plain_widget_def init_def draw_def)
  moreover have "map (\<lambda>(key, w). (key, map_of (wprops w) ''colors'', draws w)) (widgets s2)
        = [(''dial1'', Some (JStr ''red''), 1)]"
    using s2(1)
    by (auto simp add: setProp_def member_names_def nx1_value nx0_def manager_init_def
        plain_widget_def init_def draw_def)
  moreover have "setProp [] (JNum 3) nx1 = Modelled nx1"
    using setProp_broadcast [of "[]" "JNum 3" nx1] by simp
  ultimately show ?thesis using a s1 s2 by simp
qed

text \<open>
  C7, as the code has it. For a colour string that is not empty, \<open>colorize(c)\<close> and
  \<open>colorize("accent", c)\<close> leave the same manager: the same shared colours, the same
  colours in every widget, the same redraws.
\<close>

theorem colorize_single_argument:
  assumes "c \<noteq> []"
  shows "colorize c JUndefined s = colorize ''accent'' (JStr c) s"
  using assms by (simp add: colorize_def)

theorem colorize_single_argument_witness:
  "''#112233'' \<noteq> [] \<and>
   colorize ''#112233'' JUndefined nx1 = colorize ''accent'' (JStr ''#112233'') nx1 \<and>
   map_of (colors (colorize ''#112233'' JUndefined nx1)) ''accent'' = Some (JStr ''#112233'') \<and>
   map (\<lambda>(key, w). (key, map_of (wcolors w) ''accent'', draws w))
     (widgets (colorize ''#112233'' JUndefined nx1)) = [(''dial1'', Some (JStr ''#112233''), 1)]"
proof -
  have a: "''#112233'' \<noteq> []" by simp
  have "colorize ''#112233'' JUndefined nx1 = colorize ''accent'' (JStr ''#112233'') nx1"
    by (rule colorize_single_argument [OF a])
  moreover have
    "map_of (colors (colorize ''accent'' (JStr ''#112233'') nx1)) ''accent''
       = Some (JStr ''#112233'')"
    "map (\<lambda>(key, w). (key, map_of (wcolors w) ''accent'', draws w))
       (widgets (colorize ''accent'' (JStr ''#112233'') nx1))
       = [(''dial1'', Some (JStr ''#112233''), 1)]"
    by (simp_all add: colorize_def nx1_value nx0_def manager_init_def plain_widget_def
        init_def draw_def)
  ultimately show ?thesis by simp
qed

text \<open>
  C7, as the claim has it (every colour string), fails at the empty string:
  \<open>colorize("")\<close> sets the accent to the empty string, \<open>colorize("accent", "")\<close> sets
  it to the string \<open>accent\<close>.
\<close>

theorem colorize_empty_string_differs:
  "map_of (colors (colorize [] JUndefined nx1)) ''accent'' = Some (JStr []) \<and>
   map_of (colors (colorize ''accent'' (JStr []) nx1)) ''accent'' = Some (JStr ''accent'') \<and>
   colorize [] JUndefined nx1 \<noteq> colorize ''accent'' (JStr []) nx1"
proof -
  have a: "map_of (colors (colorize [] JUndefined nx1)) ''accent'' = Some (JStr [])"
    and b: "map_of (colors (colorize ''accent'' (JStr []) nx1)) ''accent''
              = Some (JStr ''accent'')"
    by (simp_all add: colorize_def nx1_value nx0_def manager_init_def)
  have "colorize [] JUndefined nx1 \<noteq> colorize ''accent'' (JStr []) nx1"
  proof
    assume "colorize [] JUndefined nx1 = colorize ''accent'' (JStr []) nx1"
    with a b show False by simp
  qed
  with a b show ?thesis by simp
qed

text \<open>
  C9. When the second argument of \<open>colorize\<close> is falsy (the empty string, or left out),
  the first argument \<open>a\<close> is taken for the colour: the shared colours change at
  \<open>accent\<close> only, which becomes the string \<open>a\<close>, and so do the colours of every widget,
  each redrawn once. The entry of the aspect \<open>a\<close> stays as it was (unless \<open>a\<close> is
  \<open>accent\<close>).
\<close>

theorem colorize_falsy_color:
  assumes "\<not> truthy newCol"
  shows "map_of (colors (colorize a newCol s)) = (map_of (colors s))(''accent'' \<mapsto> JStr a) \<and>
         (a \<noteq> ''accent'' \<longrightarrow> map_of (colors (colorize a newCol s)) a = map_of (colors s) a) \<and>
         list_all2 (\<lambda>(key, w) (key', w'). key' = key \<and>
              map_of (wcolors w') = (map_of (wcolors w))(''accent'' \<mapsto> JStr a) \<and>
              (a \<noteq> ''accent'' \<longrightarrow> map_of (wcolors w') a = map_of (wcolors w) a) \<and>
              draws w' = Suc (draws w))
           (widgets s) (widgets (colorize a newCol s))"
  using assms
  by (simp add: colorize_def update_conv' list_all2_map2 list_all2_same split_beta)

theorem colorize_falsy_color_witness:
  "\<not> truthy (JStr []) \<and>
   map_of (colors (colorize ''border'' (JStr []) nx1)) ''accent'' = Some (JStr ''border'') \<and>
   map_of (colors (colorize ''border'' (JStr []) nx1)) ''border'' = Some (JStr ''#bbb'') \<and>
   map (\<lambda>(key, w). (key, map_of (wcolors w) ''accent'', map_of (wcolors w) ''border'', draws w))
     (widgets (colorize ''border'' (JStr []) nx1))
     = [(''dial1'', Some (JStr ''border''), Some (JStr ''#bbb''), 1)]"
proof -
  have f: "\<not> truthy (JStr [])" by simp
  from colorize_falsy_color [OF f, of "''border''" nx1]
  have "map_of (colors (colorize ''border'' (JStr []) nx1))
          = (map_of (colors nx1))(''accent'' \<mapsto> JStr ''border'')"
    by simp
  then have
    "map_of (colors (colorize ''border'' (JStr []) nx1)) ''accent'' = Some (JStr ''border'')"
    "map_of (colors (colorize ''border'' (JStr []) nx1)) ''border'' = Some (JStr ''#bbb'')"
    by (simp_all add: nx1_value nx0_def manager_init_def)
  moreover have
    "map (\<lambda>(key, w). (key, map_of (wcolors w) ''accent'', map_of (wcolors w) ''border'', draws w))
       (widgets (colorize ''border'' (JStr []) nx1))
       = [(''dial1'', Some (JStr ''border''), Some (JStr ''#bbb''), 1)]"
    by (simp add: colorize_def nx1_value nx0_def manager_init_def plain_widget_def init_def
        draw_def)
  ultimately show ?thesis by simp
qed

text \<open>
  C10. \<open>setThrottlePeriod\<close> changes the manager's properties at \<open>throttlePeriod\<close>
  only and each widget's properties at \<open>throttlePeriod\<close> only. The registry keeps its
  keys and every widget its identifier, its colours and its counts of \<open>init\<close> and
  \<open>draw\<close> calls: nothing is redrawn. The ledger, the shared colours, the callbacks,
  the global namespace and the log are as before. The other broadcasts redraw:
  \<open>colorize\<close> and \<open>setLabels\<close> draw every widget once, and so does \<open>setProp\<close> when
  it goes ahead.
\<close>

theorem setThrottlePeriod_frame:
  "map_of (props (setThrottlePeriod v s)) = (map_of (props s))(''throttlePeriod'' \<mapsto> v) \<and>
   list_all2 (\<lambda>(key, w) (key', w'). key' = key \<and>
        map_of (wprops w') = (map_of (wprops w))(''throttlePeriod'' \<mapsto> v) \<and>
        canvasID w' = canvasID w \<and> wcolors w' = wcolors w \<and>
        inits w' = inits w \<and> draws w' = draws w)
     (widgets s) (widgets (setThrottlePeriod v s)) \<and>
   elemTypeArr (setThrottlePeriod v s) = elemTypeArr s \<and>
   colors (setThrottlePeriod v s) = colors s \<and>
   aniItems (setThrottlePeriod v s) = aniItems s \<and>
   window (setThrottlePeriod v s) = window s \<and>
   console (setThrottlePeriod v s) = console s \<and>
   map (\<lambda>(key, w). draws w) (widgets (colorize a c s))
     = map (\<lambda>(key, w). Suc (draws w)) (widgets s) \<and>
   map (\<lambda>(key, w). draws w) (widgets (setLabels x s))
     = map (\<lambda>(key, w). Suc (draws w)) (widgets s) \<and>
   (p \<noteq> [] \<and> truthy y \<and> p \<notin> set member_names \<longrightarrow>
      (\<exists>s'. setProp p y s = Modelled s' \<and>
         map (\<lambda>(key, w). draws w) (widgets s')
           = map (\<lambda>(key, w). Suc (draws w)) (widgets s)))"
  by (auto simp add: setThrottlePeriod_def colorize_def setLabels_def setProp_def
      member_names_def update_conv' list_all2_map2 list_all2_same split_beta)

theorem setThrottlePeriod_frame_witness:
  "map_of (props (setThrottlePeriod (JNum 50) nx1)) ''throttlePeriod'' = Some (JNum 50) \<and>
   widgets (setThrottlePeriod (JNum 50) nx1) =
     [(''dial1'', (init (plain_widget ''dial1''))\<lparr>wprops := [(''throttlePeriod'', JNum 50)]\<rparr>)] \<and>
   map (\<lambda>(key, w). draws w) (widgets (setThrottlePeriod (JNum 50) nx1)) = [0] \<and>
   map (\<lambda>(key, w). draws w) (widgets (colorize ''fill'' (JStr ''#fff'') nx1)) = [1] \<and>
   map (\<lambda>(key, w). draws w) (widgets (setLabels (JStr ''on'') nx1)) = [1] \<and>
   ''font'' \<noteq> [] \<and> truthy (JStr ''arial'') \<and> ''font'' \<notin> set member_names \<and>
   (case setProp ''font'' (JStr ''arial'') nx1 of
      Modelled s' \<Rightarrow> map (\<lambda>(key, w). draws w) (widgets s') = [1]
    | _ \<Rightarrow> False)"
proof -
  have a: "''font'' \<noteq> [] \<and> truthy (JStr ''arial'') \<and> ''font'' \<notin> set member_names"
    by (simp add: member_names_def)
  note f = setThrottlePeriod_frame [of "JNum 50" nx1 "''fill''" "JStr ''#fff''" "JStr ''on''"
      "''font''" "JStr ''arial''"]
  have d: "map (\<lambda>(key, w). Suc (draws w)) (widgets nx1) = [1]"
    by (simp add: nx1_value plain_widget_def init_def)
  from f a obtain s' where s': "setProp ''font'' (JStr ''arial'') nx1 = Modelled s'"
    "map (\<lambda>(key, w). draws w) (widgets s') = map (\<lambda>(key, w). Suc (draws w)) (widgets nx1)"
    by blast
  have "map_of (props (setThrottlePeriod (JNum 50) nx1)) ''throttlePeriod'' = Some (JNum 50)"
    using f by simp
  moreover have "widgets (setThrottlePeriod (JNum 50) nx1) =
     [(''dial1'', (init (plain_widget ''dial1''))\<lparr>wprops := [(''throttlePeriod'', JNum 50)]\<rparr>)]"
    by (simp add: setThrottlePeriod_def nx1_value plain_widget_def init_def)
  moreover have
    "map (\<lambda>(key, w). draws w) (widgets (colorize ''fill'' (JStr ''#fff'') nx1)) = [1]"
    "map (\<lambda>(key, w). draws w) (widgets (setLabels (JStr ''on'') nx1)) = [1]"
    using f d by simp_all
  ultimately show ?thesis using a s' d
    by (simp add: plain_widget_def init_def)
qed

subsection \<open>The animation tick\<close>

lemma call_each_called:
  "case call_each run fs s of
     (s', called, r) \<Rightarrow>
       (case r of Returned u \<Rightarrow> called = fs
        | Threw e \<Rightarrow> \<exists>k<length fs. called = take (Suc k) fs)"
proof (induction fs arbitrary: s)
  case Nil
  then show ?case by simp
next
  case (Cons f fs)
  obtain s1 out where r: "run f s = (s1, out)" by (cases "run f s")
  show ?case
  proof (cases out)
    case (Threw e)
    with r show ?thesis by auto
  next
    case (Returned u)
    obtain s2 called r2 where c: "call_each run fs s1 = (s2, called, r2)"
      by (cases "call_each run fs s1")
    from Cons.IH [of s1] c
    have IH: "case r2 of Returned u \<Rightarrow> called = fs
              | Threw e \<Rightarrow> \<exists>k<length fs. called = take (Suc k) fs" by simp
    show ?thesis
    proof (cases r2)
      case (Returned v)
      with IH r c \<open>out = Returned u\<close> show ?thesis by simp
    next
      case (Threw e)
      with IH obtain k where "k < length fs" "called = take (Suc k) fs" by auto
      then have "Suc k < length (f # fs) \<and> f # called = take (Suc (Suc k)) (f # fs)" by simp
      with r c \<open>out = Returned u\<close> Threw show ?thesis by auto
    qed
  qed
qed

text \<open>
  While the callbacks leave the list alone, the loop from index \<open>i\<close> on is
  \<open>call_each\<close> on the rest of the list.
\<close>

lemma pulse_loop_fixed:
  assumes frame: "\<forall>f \<in> set L. \<forall>m. aniItems (fst (run f m)) = aniItems m"
  shows "aniItems s = L \<Longrightarrow> i \<le> length L \<Longrightarrow>
         pulse_loop run i called s =
           Some (case call_each run (drop i L) s of (s', c, r) \<Rightarrow> (s', called @ c, r))"
proof (induction "length L - i" arbitrary: i called s)
  case 0
  then have "i = length L" by simp
  with 0 show ?case by (simp add: pulse_loop.simps)
next
  case (Suc n)
  then have lt: "i < length L" by simp
  then have d: "drop i L = L ! i # drop (Suc i) L" by (simp add: Cons_nth_drop_Suc)
  obtain s1 out where r: "run (L ! i) s = (s1, out)" by (cases "run (L ! i) s")
  have mem: "L ! i \<in> set L" using lt by simp
  have s1: "aniItems s1 = L"
    using frame mem r Suc.prems(1) by (metis fst_conv)
  show ?case
  proof (cases out)
    case (Threw e)
    with r lt d Suc.prems(1) show ?thesis
      by (simp add: pulse_loop.simps [of run i called s])
  next
    case (Returned u)
    have n: "n = length L - Suc i" using Suc.hyps(2) by simp
    have "pulse_loop run (Suc i) (called @ [L ! i]) s1 =
            Some (case call_each run (drop (Suc i) L) s1 of
                    (s', c, r) \<Rightarrow> (s', (called @ [L ! i]) @ c, r))"
      using Suc.hyps(1) [OF n s1] lt by simp
    with r lt d Suc.prems(1) Returned show ?thesis
      by (simp add: pulse_loop.simps [of run i called s] split: prod.split)
  qed
qed

text \<open>
  On a list that no callback changes, a tick ends, and it has called the callbacks of
  the list once each, in order; when one throws, the tick throws what it threw and the
  callbacks after it are not called.
\<close>

lemma pulse_on_fixed_list:
  assumes "\<forall>f \<in> set (aniItems s). \<forall>m. aniItems (fst (run f m)) = aniItems m"
  shows "pulse run s = Some (call_each run (aniItems s) s) \<and>
         (case call_each run (aniItems s) s of
            (s', called, r) \<Rightarrow>
              (case r of Returned u \<Rightarrow> called = aniItems s
               | Threw e \<Rightarrow> \<exists>k<length (aniItems s). called = take (Suc k) (aniItems s)))"
proof -
  have "pulse run s = Some (call_each run (aniItems s) s)"
    using pulse_loop_fixed [OF assms, where s = s and i = 0 and called = "[]"]
    by (simp add: pulse_def split: prod.split)
  with call_each_called [where run = run and fs = "aniItems s" and s = s] show ?thesis
    by simp
qed

lemma pulse_on_fixed_list_examples:
  "pulse log_run (nx0\<lparr>aniItems := [1, 2, 3]\<rparr>)
     = Some (nx0\<lparr>aniItems := [1, 2, 3], console := [''1'', ''2'', ''3'']\<rparr>,
             [1, 2, 3], Returned ())"
  "pulse log_run (nx0\<lparr>aniItems := [1, 9, 3]\<rparr>)
     = Some (nx0\<lparr>aniItems := [1, 9, 3], console := [''1'']\<rparr>,
             [1, 9], Threw (Thrown (JStr ''boom'')))"
  by (simp_all add: pulse_def pulse_loop.simps log_run_def nx0_def manager_init_def
      digits_small digit_def)

text \<open>
  C8. The comment on \<open>pulse\<close> has it execute all functions stored in \<open>nx.aniItems\<close>,
  and the claim has every registered callback called once in a tick. With the callbacks
  \<open>0\<close> and \<open>1\<close> stored, where \<open>0\<close> is a one-shot animation that takes itself off the
  list when it is called, the tick calls \<open>0\<close>, finds the length \<open>1\<close> at index \<open>1\<close> and
  returns: callback \<open>1\<close>, stored in the list before, during and after the tick, is not
  called.
\<close>

theorem pulse_skips_after_removal:
  "pulse shift_run (nx0\<lparr>aniItems := [0, 1]\<rparr>) = Some (nx0\<lparr>aniItems := [1]\<rparr>, [0], Returned ())"
  by (simp add: pulse_def pulse_loop.simps shift_run_def log_run_def)

end
